theory Spec2Isabelle
  imports Main "HOL-Library.Finite_Map"
begin

section \<open>The extension manifest (ark/extension/package.json)\<close>

text \<open>
  The manifest is a JSON object.  Its objects become records, its arrays lists and its
  string-keyed tables association lists, in the order of the file.  Strings hold the
  decoded JSON text (a JSON \<^verbatim>\<open>\n\<close> is the line feed character).
\<close>

abbreviation LF :: char where
  "LF \<equiv> CHR 0x0A"

record grammar =
  injectTo :: "string list"
  scopeName :: string
  path :: string

record replace_rule =
  matcher :: string
  message :: string

record manifest =
  name :: string
  version :: string
  scripts :: "(string \<times> string) list"
  devDependencies :: "(string \<times> string) list"
  extensionDependencies :: "string list"
  grammars :: "grammar list"
  errorLens_replace :: "replace_rule list"

text \<open>
  In the matchers, \<open>CHR 0x27\<close> is the single quote, \<open>CHR 0x22\<close> the double quote and
  \<open>CHR 0x5C\<close> the backslash.  The backslashes that remain after JSON decoding (before
  \<^verbatim>\<open>u200A\<close>, \<^verbatim>\<open>.\<close> and \<^verbatim>\<open>1\<close>) belong to the regular expressions.
\<close>

definition package_json :: manifest where
  "package_json = \<lparr>
     name = ''arkdark'',
     version = ''6.1.0'',
     scripts =
       [(''publishExtension'', ''pnpm packageExtension && pnpm publishVsce && pnpm publishOvsx''),
        (''packageExtension'', ''vsce package --out arkdark.vsix''),
        (''publishVsce'', ''vsce publish -i arkdark.vsix''),
        (''publishOvsx'', ''ovsx publish -i arkdark.vsix'')],
     devDependencies = [(''@vscode/vsce'', ''3.3.2''), (''ovsx'', ''0.10.1'')],
     extensionDependencies = [''usernamehw.errorlens''],
     grammars =
       [\<lparr> injectTo =
            [''source.ts'', ''source.tsx'', ''source.js'', ''source.jsx'', ''source.mdx'',
             ''source.svelte'', ''source.vue'', ''source.astro'', ''text.html.markdown''],
          scopeName = ''source.arktype.injection.ts'',
          path = ''injected.tmLanguage.json'' \<rparr>],
     errorLens_replace =
       [\<lparr> matcher = [CHR ''.'', CHR ''*'', CHR 0x27] @ ''ErrorType<(.*)>'' @ [CHR 0x27] @ ''.*$'',
          message = ''$1'' \<rparr>,
        \<lparr> matcher = [CHR ''.'', CHR ''*'', CHR 0x27, CHR 0x22] @ ''(.*''
            @ [CHR 0x5C] @ ''u200A)'' @ [CHR 0x22, CHR 0x27, CHR 0x5C] @ ''.$'',
          message = ''$1'' \<rparr>,
        \<lparr> matcher = ''^(?:Type|Argument of type) '' @ [CHR 0x27, CHR 0x22] @ ''(.*)''
            @ [CHR 0x22, CHR 0x27] @ '' is not assignable to (?:parameter of )?type ''
            @ [CHR 0x27] @ ''('' @ [CHR 0x22, CHR 0x5C] @ ''1.*'' @ [CHR 0x22] @ '')''
            @ [CHR 0x27, CHR 0x5C] @ ''.'',
          message = ''$2'' \<rparr>,
        \<lparr> matcher = ''[^]*'' @ [LF] @ ''([^'' @ [LF] @ '']*)$'',
          message = ''$1'' \<rparr>] \<rparr>"

subsection \<open>Grammar injection\<close>

definition inject_targets :: "manifest \<Rightarrow> string list" where
  "inject_targets m = concat (map injectTo (grammars m))"

subsection \<open>Scripts\<close>

text \<open>
  A script is a shell command line.  The scripts of the manifest use three shell
  features only: words separated by blanks, the \<^verbatim>\<open>&&\<close> list operator (run the next
  command when the previous one succeeded) and \<^verbatim>\<open>pnpm <script>\<close>, which runs another
  script of the same manifest.
\<close>

fun split_on :: "char \<Rightarrow> string \<Rightarrow> string list" where
  "split_on d [] = [[]]"
| "split_on d (c # cs) =
     (if c = d then [] # split_on d cs
      else (case split_on d cs of
              [] \<Rightarrow> [[c]]
            | w # ws \<Rightarrow> (c # w) # ws))"

definition shell_words :: "string \<Rightarrow> string list" where
  "shell_words s = filter (\<lambda>w. w \<noteq> []) (split_on CHR '' '' s)"

text \<open>The commands of an \<^verbatim>\<open>&&\<close> list, in the order the shell runs them.\<close>

fun and_list :: "string list \<Rightarrow> string list list" where
  "and_list [] = [[]]"
| "and_list (w # ws) =
     (if w = ''&&'' then [] # and_list ws
      else (case and_list ws of
              [] \<Rightarrow> [[w]]
            | c # cs \<Rightarrow> (w # c) # cs))"

definition script_commands :: "manifest \<Rightarrow> string \<Rightarrow> string list list" where
  "script_commands m n =
     (case map_of (scripts m) n of
        None \<Rightarrow> []
      | Some body \<Rightarrow> and_list (shell_words body))"

text \<open>The word that follows an option flag on a command line.\<close>

fun option_value :: "string \<Rightarrow> string list \<Rightarrow> string option" where
  "option_value flag [] = None"
| "option_value flag [w] = None"
| "option_value flag (w # v # ws) =
     (if w = flag then Some v else option_value flag (v # ws))"

text \<open>
  \<^verbatim>\<open>pnpm <script>\<close> stands for the commands of that script; any other command stands
  for itself.
\<close>

definition resolve :: "manifest \<Rightarrow> string list \<Rightarrow> string list list" where
  "resolve m cmd =
     (case cmd of
        [p, n] \<Rightarrow>
          (if p = ''pnpm'' \<and> map_of (scripts m) n \<noteq> None then script_commands m n
           else [cmd])
      | _ \<Rightarrow> [cmd])"

text \<open>
  Running an \<^verbatim>\<open>&&\<close> list: each command runs after the previous one has succeeded;
  the first failure ends the list.  \<open>ok\<close> tells which commands succeed; the result is
  the sequence of commands that were started.
\<close>

fun run_list :: "(string list \<Rightarrow> bool) \<Rightarrow> string list list \<Rightarrow> string list list" where
  "run_list ok [] = []"
| "run_list ok (c # cs) = c # (if ok c then run_list ok cs else [])"

definition run_script :: "manifest \<Rightarrow> (string list \<Rightarrow> bool) \<Rightarrow> string \<Rightarrow> string list list" where
  "run_script m ok n = run_list ok (concat (map (resolve m) (script_commands m n)))"

section \<open>The publish workflow (.github/workflows/publish.yml)\<close>

text \<open>
  The workflow is a YAML mapping; as for the manifest, mappings with fixed keys become
  records and the others association lists.  A key the file does not write is \<open>None\<close>
  (or the empty list).  The scalar \<^verbatim>\<open>needs: update-gh-pages\<close> is the one-element list.
\<close>

record step =
  step_name :: string
  step_id :: "string option"
  uses :: "string option"
  run :: "string option"
  with_inputs :: "(string \<times> string) list"
  env :: "(string \<times> string) list"

record job =
  job_id :: string
  needs :: "string list"
  runs_on :: string
  timeout_minutes :: "nat option"
  job_permissions :: "string option"
  environment :: "(string \<times> string) list"
  steps :: "step list"

record trigger =
  event :: string
  branches :: "string list option"
  tags :: "string list option"

record workflow =
  workflow_name :: string
  on_events :: "trigger list"
  permissions :: "string option"
  jobs :: "job list"

definition checkout_step :: step where
  "checkout_step = \<lparr>
     step_name = ''Checkout repo'', step_id = None,
     uses = Some ''actions/checkout@v4'', run = None,
     with_inputs = [(''fetch-depth'', ''0'')], env = [] \<rparr>"

definition setup_step :: step where
  "setup_step = \<lparr>
     step_name = ''Setup repo'', step_id = None,
     uses = Some ''./.github/actions/setup'', run = None,
     with_inputs = [], env = [] \<rparr>"

definition update_gh_pages :: job where
  "update_gh_pages = \<lparr>
     job_id = ''update-gh-pages'', needs = [], runs_on = ''ubuntu-latest'',
     timeout_minutes = Some 20, job_permissions = None, environment = [],
     steps =
       [checkout_step,
        setup_step,
        \<lparr> step_name = ''Build docs'', step_id = None,
          uses = None, run = Some ''pnpm buildDocs'',
          with_inputs = [],
          env =
            [(''NEXT_PUBLIC_POSTHOG_KEY'', ''phc_vKr7tmA1TyRlKm9zm5TWVmrTWAybJ2fCk66FtZG49Om''),
             (''NEXT_PUBLIC_POSTHOG_HOST'', ''https://us.i.posthog.com''),
             (''ORAMA_PRIVATE_API_KEY'', ''${{ secrets.ORAMA_PRIVATE_API_KEY }}'')] \<rparr>,
        \<lparr> step_name = ''Upload artifact'', step_id = None,
          uses = Some ''actions/upload-pages-artifact@v3'', run = None,
          with_inputs = [(''path'', ''./ark/docs/out'')], env = [] \<rparr>] \<rparr>"

definition deploy :: job where
  "deploy = \<lparr>
     job_id = ''deploy'', needs = [''update-gh-pages''], runs_on = ''ubuntu-latest'',
     timeout_minutes = None, job_permissions = None,
     environment =
       [(''name'', ''github-pages''),
        (''url'', ''${{ steps.deployment.outputs.page_url }}'')],
     steps =
       [\<lparr> step_name = ''Deploy to GitHub Pages'', step_id = Some ''deployment'',
          uses = Some ''actions/deploy-pages@v4'', run = None,
          with_inputs = [], env = [] \<rparr>] \<rparr>"

definition release :: job where
  "release = \<lparr>
     job_id = ''release'', needs = [], runs_on = ''ubuntu-latest'',
     timeout_minutes = Some 20, job_permissions = None, environment = [],
     steps =
       [checkout_step,
        setup_step,
        \<lparr> step_name = ''Create and publish versions'', step_id = None,
          uses = None, run = Some ''pnpm ci:publish'',
          with_inputs = [],
          env =
            [(''GITHUB_TOKEN'', ''${{ secrets.GITHUB_TOKEN }}''),
             (''NPM_TOKEN'', ''${{ secrets.NPM_TOKEN }}''),
             (''NODE_AUTH_TOKEN'', ''${{ secrets.NPM_TOKEN }}'')] \<rparr>] \<rparr>"

definition publish :: workflow where
  "publish = \<lparr>
     workflow_name = ''publish'',
     on_events =
       [\<lparr> event = ''push'', branches = Some [''main''], tags = None \<rparr>,
        \<lparr> event = ''workflow_dispatch'', branches = None, tags = None \<rparr>],
     permissions = Some ''write-all'',
     jobs = [update_gh_pages, deploy, release] \<rparr>"

subsection \<open>Triggers\<close>

text \<open>
  An occurrence of a repository event carries the event's name and the git ref it is
  about.  A workflow runs for it when one entry of \<^verbatim>\<open>on\<close> names the event and the
  entry's filters let the ref pass: an entry without filters lets every ref pass; once
  \<^verbatim>\<open>branches\<close> or \<^verbatim>\<open>tags\<close> is written, a branch passes only through a pattern of
  \<^verbatim>\<open>branches\<close> and a tag only through a pattern of \<^verbatim>\<open>tags\<close>.  The platform's
  pattern matcher is not part of the repository; it is the parameter \<open>glob\<close>.
\<close>

datatype gitref = Branch string | Tag string

definition passes :: "(string \<Rightarrow> string \<Rightarrow> bool) \<Rightarrow> string list option \<Rightarrow> string \<Rightarrow> bool" where
  "passes glob pats n =
     (case pats of
        None \<Rightarrow> False
      | Some ps \<Rightarrow> list_ex (\<lambda>p. glob p n) ps)"

definition ref_passes :: "(string \<Rightarrow> string \<Rightarrow> bool) \<Rightarrow> trigger \<Rightarrow> gitref \<Rightarrow> bool" where
  "ref_passes glob t r =
     (if branches t = None \<and> tags t = None then True
      else (case r of
              Branch b \<Rightarrow> passes glob (branches t) b
            | Tag g \<Rightarrow> passes glob (tags t) g))"

definition triggered :: "(string \<Rightarrow> string \<Rightarrow> bool) \<Rightarrow> workflow \<Rightarrow> string \<Rightarrow> gitref \<Rightarrow> bool" where
  "triggered glob wfl e r = list_ex (\<lambda>t. event t = e \<and> ref_passes glob t r) (on_events wfl)"

subsection \<open>Secrets and environment variables\<close>

text \<open>
  A secret is referenced by the expression \<^verbatim>\<open>secrets.NAME\<close> inside a string of the
  workflow.  \<open>secret_names\<close> collects every such name of one string, \<open>workflow_strings\<close>
  every string value the jobs hold.
\<close>

definition ident_char :: "char \<Rightarrow> bool" where
  "ident_char c =
     (c \<in> set (''ABCDEFGHIJKLMNOPQRSTUVWXYZ'' @ ''abcdefghijklmnopqrstuvwxyz'' @ ''0123456789_''))"

fun secret_names :: "string \<Rightarrow> string list" where
  "secret_names [] = []"
| "secret_names (c # cs) =
     (if take 8 (c # cs) = ''secrets.''
      then takeWhile ident_char (drop 8 (c # cs)) # secret_names cs
      else secret_names cs)"

definition step_strings :: "step \<Rightarrow> string list" where
  "step_strings st =
     (case uses st of None \<Rightarrow> [] | Some u \<Rightarrow> [u])
     @ (case run st of None \<Rightarrow> [] | Some r \<Rightarrow> [r])
     @ map snd (with_inputs st) @ map snd (env st)"

definition job_strings :: "job \<Rightarrow> string list" where
  "job_strings j = map snd (environment j) @ concat (map step_strings (steps j))"

definition workflow_strings :: "workflow \<Rightarrow> string list" where
  "workflow_strings wfl = concat (map job_strings (jobs wfl))"

definition secrets_referenced :: "workflow \<Rightarrow> string list" where
  "secrets_referenced wfl = concat (map secret_names (workflow_strings wfl))"

text \<open>The environment variables the steps set, with the values they are bound to.\<close>

definition env_bindings :: "workflow \<Rightarrow> (string \<times> string) list" where
  "env_bindings wfl = concat (map (\<lambda>j. concat (map env (steps j))) (jobs wfl))"

definition env_vars :: "workflow \<Rightarrow> string list" where
  "env_vars wfl = map fst (env_bindings wfl)"

definition secret_env_vars :: "workflow \<Rightarrow> string list" where
  "secret_env_vars wfl = map fst (filter (\<lambda>(n, v). secret_names v \<noteq> []) (env_bindings wfl))"

text \<open>The four names the specification lists.\<close>

definition listed_names :: "string set" where
  "listed_names = {''ORAMA_PRIVATE_API_KEY'', ''GITHUB_TOKEN'', ''NPM_TOKEN'', ''NODE_AUTH_TOKEN''}"

subsection \<open>Permissions\<close>

text \<open>A job's own \<^verbatim>\<open>permissions\<close> block replaces the workflow's; without one the job
  runs with the workflow's.\<close>

definition effective_permissions :: "workflow \<Rightarrow> job \<Rightarrow> string option" where
  "effective_permissions wfl j =
     (case job_permissions j of
        None \<Rightarrow> permissions wfl
      | Some p \<Rightarrow> Some p)"

subsection \<open>Job ordering\<close>

text \<open>
  A run of the workflow is a sequence of job events.  A job starts at most once, and
  only when every job it \<^verbatim>\<open>needs\<close> has finished; it finishes only while it runs.
  The state is the list of running jobs and the list of finished jobs.
\<close>

datatype job_event = Start string | Finish string

type_synonym run_state = "string list \<times> string list"

definition find_job :: "workflow \<Rightarrow> string \<Rightarrow> job option" where
  "find_job wfl n = find (\<lambda>j. job_id j = n) (jobs wfl)"

fun run_event :: "workflow \<Rightarrow> run_state \<Rightarrow> job_event \<Rightarrow> run_state option" where
  "run_event wfl (running, finished) (Start n) =
     (case find_job wfl n of
        None \<Rightarrow> None
      | Some j \<Rightarrow>
          (if n \<notin> set running \<and> n \<notin> set finished \<and> list_all (\<lambda>d. d \<in> set finished) (needs j)
           then Some (n # running, finished)
           else None))"
| "run_event wfl (running, finished) (Finish n) =
     (if n \<in> set running then Some (removeAll n running, n # finished) else None)"

fun run_events :: "workflow \<Rightarrow> run_state \<Rightarrow> job_event list \<Rightarrow> run_state option" where
  "run_events wfl s [] = Some s"
| "run_events wfl s (e # es) =
     (case run_event wfl s e of
        None \<Rightarrow> None
      | Some s' \<Rightarrow> run_events wfl s' es)"

definition valid_run :: "workflow \<Rightarrow> job_event list \<Rightarrow> bool" where
  "valid_run wfl es = (run_events wfl ([], []) es \<noteq> None)"

section \<open>The home layout (ark/docs/app/(home)/layout.tsx)\<close>

text \<open>
  The module's default export is a function component.  JavaScript values are modelled
  as far as the component handles them: objects are finite maps from property names to
  values, a React element is its component with its props, and \<open>Node\<close> stands for any
  value the component only passes on.  \<^verbatim>\<open>baseOptions\<close> is imported from
  \<^verbatim>\<open>layout.config.tsx\<close>, which is not among the sources; it is a parameter.
\<close>

datatype jsval =
    Undefined
  | Str string
  | Node nat
  | Obj "(string, jsval) fmap"
  | Element string "(string, jsval) fmap"

text \<open>Reading a property; an absent one reads as \<^verbatim>\<open>undefined\<close>.\<close>

definition get_prop :: "(string, jsval) fmap \<Rightarrow> string \<Rightarrow> jsval" where
  "get_prop ob k = (case fmlookup ob k of None \<Rightarrow> Undefined | Some v \<Rightarrow> v)"

text \<open>
  The properties an object spread \<^verbatim>\<open>{...v}\<close> copies: those of an object, none of
  \<^verbatim>\<open>undefined\<close>.  The type of \<^verbatim>\<open>baseOptions.nav\<close> admits no other value; the
  predicate \<open>plain_object\<close> below says so.
\<close>

definition own_props :: "jsval \<Rightarrow> (string, jsval) fmap" where
  "own_props v = (case v of Obj ps \<Rightarrow> ps | _ \<Rightarrow> fmempty)"

text \<open>
  A JSX element \<^verbatim>\<open><C {...a} k={v}>{c}</C>\<close> is the element of component \<open>C\<close> whose props
  are those of \<open>a\<close>, then \<open>k\<close>, then \<open>children\<close>, a later one replacing an earlier one of
  the same name.
\<close>

definition jsx :: "string \<Rightarrow> (string, jsval) fmap \<Rightarrow> jsval" where
  "jsx component props = Element component props"

definition element_type :: "jsval \<Rightarrow> string option" where
  "element_type v = (case v of Element c ps \<Rightarrow> Some c | _ \<Rightarrow> None)"

definition element_props :: "jsval \<Rightarrow> (string, jsval) fmap" where
  "element_props v = (case v of Element c ps \<Rightarrow> ps | _ \<Rightarrow> fmempty)"

definition FloatYourBoat_header :: jsval where
  "FloatYourBoat_header = jsx ''FloatYourBoat'' (fmupd ''kind'' (Str ''header'') fmempty)"

text \<open>
  \<^verbatim>\<open>
  export default ({ children }: LayoutProps): React.ReactElement => (
    <HomeLayout
      {...baseOptions}
      nav={{ ...baseOptions.nav, children: <FloatYourBoat kind="header" /> }}
    >
      {children}
    </HomeLayout>
  )
  \<close>
\<close>

definition Layout :: "(string, jsval) fmap \<Rightarrow> (string, jsval) fmap \<Rightarrow> jsval" where
  "Layout baseOptions props =
     (let children = get_prop props ''children'' in
      jsx ''HomeLayout''
        (fmupd ''children'' children
          (fmupd ''nav''
             (Obj (fmupd ''children'' FloatYourBoat_header
                    (fmempty ++\<^sub>f own_props (get_prop baseOptions ''nav''))))
             (fmempty ++\<^sub>f own_props (Obj baseOptions)))))"

definition plain_object :: "jsval \<Rightarrow> bool" where
  "plain_object v = (case v of Undefined \<Rightarrow> True | Obj ps \<Rightarrow> True | _ \<Rightarrow> False)"

section \<open>The configuration documentation (ark/docs/app/(home)/layout.tsx, lines 310 to 514)\<close>

text \<open>
  The source file carries, after the layout module, the Markdown text of the documentation
  page ``Configuration''.  \<open>configuration_doc\<close> holds its lines 310 to 514, the sections
  from \<^verbatim>\<open>Clone\<close> to \<^verbatim>\<open>onFail\<close>, one string per line, as they are written.
\<close>

abbreviation TAB :: char where
  "TAB \<equiv> CHR 0x09"

definition configuration_doc :: "string list" where
  \<open>configuration_doc =
     [''### Clone'',
      '''',
      ''By default, before a [morph](/docs/intro/morphs-and-more) is applied, ArkType will deeply clone the original input value with a built-in `deepClone` function that tries to make reasonable assumptions about preserving prototypes etc. The implementation of `deepClone` can be found [here](https://github.com/arktypeio/arktype/blob/main/ark/util/clone.ts).'',
      '''',
      ''You can provide an alternate clone implementation to the `clone` config option.'',
      '''',
      ''```ts title="config.ts"'',
      ''import { configure } from "arktype/config"'',
      '''',
      ''configure({ clone: structuredClone })'',
      ''```'',
      '''',
      ''```ts title="app.ts"'',
      ''import "./config.ts"'',
      ''// import your config file before arktype'',
      ''import { type } from "arktype"'',
      '''',
      ''// will now create a new object using structuredClone'',
      ''const UserForm = type({'',
      TAB # ''age: "string.numeric.parse"'',
      ''})'',
      ''```'',
      '''',
      ''To mutate the input object directly, you can set the `clone` config option to `false`.'',
      '''',
      ''```ts title="config.ts"'',
      ''import { configure } from "arktype/config"'',
      '''',
      ''configure({ clone: false })'',
      ''```'',
      '''',
      ''```ts title="app.ts"'',
      ''import "./config.ts"'',
      ''// import your config file before arktype'',
      ''import { type } from "arktype"'',
      '''',
      ''const UserForm = type({'',
      TAB # ''age: "string.numeric.parse"'',
      ''})'',
      '''',
      ''const formData = {'',
      TAB # ''age: "42"'',
      ''}'',
      '''',
      ''const out = UserForm(formData)'',
      '''',
      ''// the original object's age key is now a number'',
      ''console.log(formData.age)'',
      ''```'',
      '''',
      ''### onUndeclaredKey'',
      '''',
      ''Like TypeScript, ArkType defaults to ignoring undeclared keys during validation. However, it also supports two additional behaviors:'',
      '''',
      ''- `"ignore"` (default): Allow undeclared keys on input, preserve them on output'',
      ''- `"delete"`: Allow undeclared keys on input, delete them before returning output'',
      ''- `"reject"`: Reject input with undeclared keys'',
      '''',
      ''These behaviors can be associated with individual Types via the built-in `"+"` syntax (see [those docs](/docs/objects#properties-undeclared) for more on how they work). You can also change the default globally:'',
      '''',
      ''```ts title="config.ts"'',
      ''import { configure } from "arktype/config"'',
      '''',
      ''configure({ onUndeclaredKey: "delete" })'',
      ''```'',
      '''',
      ''```ts title="app.ts"'',
      ''import "./config.ts"'',
      ''// import your config file before arktype'',
      ''import { type } from "arktype"'',
      '''',
      ''const UserForm = type({'',
      TAB # ''name: "string"'',
      ''})'',
      '''',
      ''// out is now { name: "Alice" }'',
      ''const out = UserForm({'',
      TAB # ''name: "Alice",'',
      TAB # ''age: "42"'',
      ''})'',
      ''```'',
      '''',
      ''### exactOptionalPropertyTypes'',
      '''',
      ''By default, ArkType validates optional keys as if [TypeScript's `exactOptionalPropertyTypes` is set to `true`](https://www.typescriptlang.org/tsconfig/#exactOptionalPropertyTypes).'',
      '''',
      ''<details>'',
      TAB # ''<summary>See an example</summary>'',
      '''',
      ''```ts'',
      ''const MyObj = type({'',
      TAB # ''"key?": "number"'',
      ''})'',
      '''',
      ''// valid data'',
      ''const validResult = MyObj({})'',
      '''',
      ''// Error: key must be a number (was undefined)'',
      ''const errorResult = MyObj({ key: undefined })'',
      ''```'',
      '''',
      ''</details>'',
      '''',
      ''This approach allows the most granular control over optionality, as `| undefined` can be added to properties that should accept it.'',
      '''',
      ''However, if you have not enabled TypeScript's `exactOptionalPropertyTypes` setting, you may globally configure ArkType's `exactOptionalPropertyTypes` to `false` to match TypeScript's behavior. If you do this, we'd recommend making a plan to enable `exactOptionalPropertyTypes` in the future.'',
      '''',
      ''```ts title="config.ts"'',
      ''import { configure } from "arktype/config"'',
      '''',
      ''// since the default in ArkType is `true`, this will only have an effect if set to `false`'',
      ''configure({ exactOptionalPropertyTypes: false })'',
      ''```'',
      '''',
      ''```ts title="app.ts"'',
      ''import "./config.ts"'',
      ''// import your config file before arktype'',
      ''import { type } from "arktype"'',
      '''',
      ''const MyObj = type({'',
      TAB # ''"key?": "number"'',
      ''})'',
      '''',
      ''// valid data'',
      ''const validResult = MyObj({})'',
      '''',
      ''// now also valid data (would be an error by default)'',
      ''const secondResult = MyObj({ key: undefined })'',
      ''```'',
      '''',
      ''<Callout type="warn" title="exactOptionalPropertyTypes does not yet affect default values!">'',
      '''',
      ''```ts'',
      ''const MyObj = type({'',
      TAB # ''key: "number = 5"'',
      ''})'',
      '''',
      ''// { key: 5 }'',
      ''const omittedResult = MyObj({})'',
      '''',
      ''// { key: undefined }'',
      ''const undefinedResult = MyObj({ key: undefined })'',
      ''```'',
      '''',
      ''Support for this is tracked as part of [this broader configurable defaultability issue](https://github.com/arktypeio/arktype/issues/1390).'',
      '''',
      ''</Callout>'',
      '''',
      ''### jitless'',
      '''',
      ''By default, when a `Type` is instantiated, ArkType will precompile optimized validation logic that will run when the type is invoked. This behavior is disabled by default in environments that don't support `new Function`, e.g. Cloudflare Workers.'',
      '''',
      ''If you'd like to opt out of it for another reason, you can set the `jitless` config option to `true`.'',
      '''',
      ''```ts title="config.ts"'',
      ''import { configure } from "arktype/config"'',
      '''',
      ''configure({ jitless: true })'',
      ''```'',
      '''',
      ''```ts title="app.ts"'',
      ''import "./config.ts"'',
      ''// import your config file before arktype'',
      ''import { type } from "arktype"'',
      '''',
      ''// will not be precompiled'',
      ''const MyObject = type({'',
      TAB # ''foo: "string"'',
      ''})'',
      ''```'',
      '''',
      ''### onFail'',
      '''',
      ''In some domains, you may always want to throw on failed validation or transform the result in some other way.'',
      '''',
      ''By specifying `onFail` in your global config, you can control what happens when you invoke a `Type` on invalid data:'',
      '''',
      ''```ts title="config.ts"'',
      ''import { configure } from "arktype/config"'',
      '''',
      ''const config = configure({'',
      TAB # ''onFail: errors => errors.throw()'',
      ''})'',
      '''',
      ''// be sure to specify both the runtime and static configs'',
      '''',
      ''declare global {'',
      TAB # ''interface ArkEnv {'',
      TAB # TAB # ''onFail: typeof config.onFail'',
      TAB # ''}'',
      ''}'',
      ''```'',
      '''',
      ''```ts title="app.ts"'',
      ''import "./config.ts"'',
      ''// import your config file before arktype'',
      ''import { type } from "arktype"'',
      '''',
      ''// data is inferred as string- no need to discriminate!'',
      ''const data = type.string("foo")'',
      '''',
      ''// now thrown instead of returned'',
      ''// ArkErrors: must be a string (was number)'',
      ''const bad = type.string(5)'',
      ''```'']\<close>

subsection \<open>Reading the Markdown\<close>

text \<open>\<open>starts_with p s\<close>: the string \<open>s\<close> begins with \<open>p\<close>.\<close>

fun starts_with :: "string \<Rightarrow> string \<Rightarrow> bool" where
  "starts_with [] s = True"
| "starts_with (p # ps) [] = False"
| "starts_with (p # ps) (c # cs) = (if p = c then starts_with ps cs else False)"

text \<open>A section starts at a third-level heading and runs to the next one.\<close>

definition heading :: "string \<Rightarrow> string option" where
  "heading l = (if starts_with ''### '' l then Some (drop 4 l) else None)"

fun sections :: "string list \<Rightarrow> (string \<times> string list) list" where
  "sections [] = []"
| "sections (l # ls) =
     (case heading l of
        None \<Rightarrow> sections ls
      | Some t \<Rightarrow> (t, takeWhile (\<lambda>x. heading x = None) ls) # sections ls)"

text \<open>
  The fenced code blocks of a list of lines: the lines between a line that opens a fence
  and the next line that closes it.  The first argument holds the lines of the block
  being read, latest first, and is \<open>None\<close> outside a block.
\<close>

definition is_fence :: "string \<Rightarrow> bool" where
  \<open>is_fence l = starts_with ''```'' l\<close>

fun fenced :: "string list option \<Rightarrow> string list \<Rightarrow> string list list" where
  "fenced cur [] = []"
| "fenced None (l # ls) = (if is_fence l then fenced (Some []) ls else fenced None ls)"
| "fenced (Some acc) (l # ls) =
     (if is_fence l then rev acc # fenced None ls else fenced (Some (l # acc)) ls)"

definition code_blocks :: "string list \<Rightarrow> string list" where
  "code_blocks ls = map (\<lambda>b. concat (map (\<lambda>l. l @ [LF]) b)) (fenced None ls)"

text \<open>
  The keys that calls \<^verbatim>\<open>configure({ key: ... })\<close> in a piece of code set first: after
  each \<^verbatim>\<open>configure({\<close>, blanks are skipped and the identifier that follows is taken.
\<close>

definition blank :: "char \<Rightarrow> bool" where
  "blank c = (c = CHR '' '' \<or> c = TAB \<or> c = LF)"

fun configure_keys :: "string \<Rightarrow> string list" where
  "configure_keys [] = []"
| "configure_keys (c # cs) =
     (if starts_with ''configure({'' (c # cs)
      then takeWhile ident_char (dropWhile blank (drop 11 (c # cs))) # configure_keys cs
      else configure_keys cs)"

definition configure_examples :: "string list \<Rightarrow> string list" where
  "configure_examples ls = concat (map configure_keys (code_blocks ls))"

text \<open>
  A list item that names an option value: \<^verbatim>\<open>- `"value"`\<close>, followed by
  \<^verbatim>\<open> (default)\<close> when the value is the default.
\<close>

definition option_item :: "string \<Rightarrow> (string \<times> bool) option" where
  \<open>option_item l =
     (if take 4 l = ''- `"''
      then (let v = takeWhile (\<lambda>c. c \<noteq> CHR 0x22) (drop 4 l);
                rest = drop (4 + length v) l
            in if take 2 rest = ''"`''
               then Some (v, take 10 (drop 2 rest) = '' (default)'')
               else None)
      else None)\<close>

definition option_items :: "string list \<Rightarrow> (string \<times> bool) list" where
  "option_items ls = concat (map (\<lambda>l. case option_item l of None \<Rightarrow> [] | Some x \<Rightarrow> [x]) ls)"

definition section_lines :: "string list \<Rightarrow> string \<Rightarrow> string list" where
  "section_lines doc t = (case map_of (sections doc) t of None \<Rightarrow> [] | Some ls \<Rightarrow> ls)"

section \<open>The ErrorLens rewrite rules\<close>

text \<open>
  ErrorLens is the editor extension the manifest depends on; it is not part of the
  repository.  It reads \<^verbatim>\<open>errorLens.replace\<close> as an ordered list of rules: a
  diagnostic message is matched against each \<^verbatim>\<open>matcher\<close>, a JavaScript regular
  expression, and the first rule that matches replaces the message by its
  \<^verbatim>\<open>message\<close>, in which \<^verbatim>\<open>$n\<close> stands for the text of the \<open>n\<close>-th capture group.
  The model below covers the part of the regular expression syntax the fourth matcher is
  written in: literal characters, negated character classes \<^verbatim>\<open>[^...]\<close> (the empty one,
  \<^verbatim>\<open>[^]\<close>, takes any character), the greedy \<^verbatim>\<open>*\<close> after a character or class,
  capture groups and the end anchor \<^verbatim>\<open>$\<close>.  A pattern that uses anything else is not
  compiled (\<open>None\<close>).
\<close>

subsection \<open>Reading a pattern\<close>

datatype atom = Lit char | NotOneOf "char list"

datatype item = IAtom atom | IStar | IOpen | IClose | IEnd

datatype lex_state = Outside | Bracket | InClass "char list"

definition cons_opt :: "'a \<Rightarrow> 'a list option \<Rightarrow> 'a list option" where
  "cons_opt x r = (case r of None \<Rightarrow> None | Some xs \<Rightarrow> Some (x # xs))"

fun lex :: "lex_state \<Rightarrow> string \<Rightarrow> item list option" where
  "lex Outside [] = Some []"
| "lex Bracket [] = None"
| "lex (InClass acc) [] = None"
| "lex Outside (c # cs) =
     (if c = CHR ''['' then lex Bracket cs
      else if c = CHR ''('' then cons_opt IOpen (lex Outside cs)
      else if c = CHR '')'' then cons_opt IClose (lex Outside cs)
      else if c = CHR ''$'' then cons_opt IEnd (lex Outside cs)
      else if c = CHR ''*'' then cons_opt IStar (lex Outside cs)
      else if c \<in> set (''.?+|^{}]'' @ [CHR 0x5C]) then None
      else cons_opt (IAtom (Lit c)) (lex Outside cs))"
| "lex Bracket (c # cs) = (if c = CHR ''^'' then lex (InClass []) cs else None)"
| "lex (InClass acc) (c # cs) =
     (if c = CHR '']'' then cons_opt (IAtom (NotOneOf (rev acc))) (lex Outside cs)
      else if c = CHR ''-'' \<or> c = CHR 0x5C then None
      else lex (InClass (c # acc)) cs)"

datatype tok = One atom | Star atom | Open | Close | End

fun quantify :: "item list \<Rightarrow> tok list option" where
  "quantify [] = Some []"
| "quantify (IAtom a # IStar # is) = cons_opt (Star a) (quantify is)"
| "quantify (IAtom a # is) = cons_opt (One a) (quantify is)"
| "quantify (IStar # is) = None"
| "quantify (IOpen # is) = cons_opt Open (quantify is)"
| "quantify (IClose # is) = cons_opt Close (quantify is)"
| "quantify (IEnd # is) = cons_opt End (quantify is)"

definition compile :: "string \<Rightarrow> tok list option" where
  "compile p = (case lex Outside p of None \<Rightarrow> None | Some is \<Rightarrow> quantify is)"

subsection \<open>Matching\<close>

fun accepts :: "atom \<Rightarrow> char \<Rightarrow> bool" where
  "accepts (Lit x) c = (c = x)"
| "accepts (NotOneOf xs) c = (c \<notin> set xs)"

text \<open>
  The matcher backtracks as the language specifies: a starred atom first takes one more
  character and goes on repeating, and only when the rest of the pattern then fails does
  it hand over to the rest of the pattern where it stands.  The open groups are a stack
  of group numbers with the text each has taken so far, latest character first; group 0
  is the whole match.  The result is the text of every group, by group number.
\<close>

type_synonym groups = "(nat \<times> string) list"

definition take_char :: "char \<Rightarrow> groups \<Rightarrow> groups" where
  "take_char c st = map (\<lambda>(g, acc). (g, c # acc)) st"

fun match_here :: "tok list \<Rightarrow> string \<Rightarrow> groups \<Rightarrow> string option list \<Rightarrow> string option list option" where
  "match_here [] s st caps =
     (case st of
        [(g, acc)] \<Rightarrow> Some (caps[g := Some (rev acc)])
      | _ \<Rightarrow> None)"
| "match_here (One a # ts) [] st caps = None"
| "match_here (One a # ts) (c # cs) st caps =
     (if accepts a c then match_here ts cs (take_char c st) caps else None)"
| "match_here (Star a # ts) [] st caps = match_here ts [] st caps"
| "match_here (Star a # ts) (c # cs) st caps =
     (if accepts a c
      then (case match_here (Star a # ts) cs (take_char c st) caps of
              Some r \<Rightarrow> Some r
            | None \<Rightarrow> match_here ts (c # cs) st caps)
      else match_here ts (c # cs) st caps)"
| "match_here (Open # ts) s st caps = match_here ts s ((length caps, []) # st) (caps @ [None])"
| "match_here (Close # ts) s st caps =
     (case st of
        [] \<Rightarrow> None
      | (g, acc) # st' \<Rightarrow> match_here ts s st' (caps[g := Some (rev acc)]))"
| "match_here (End # ts) s st caps = (if s = [] then match_here ts s st caps else None)"

text \<open>\<^verbatim>\<open>exec\<close>: the leftmost match, as its start index and its groups.\<close>

fun exec_from :: "tok list \<Rightarrow> nat \<Rightarrow> string \<Rightarrow> (nat \<times> string option list) option" where
  "exec_from ts i [] =
     (case match_here ts [] [(0, [])] [None] of
        Some caps \<Rightarrow> Some (i, caps)
      | None \<Rightarrow> None)"
| "exec_from ts i (c # cs) =
     (case match_here ts (c # cs) [(0, [])] [None] of
        Some caps \<Rightarrow> Some (i, caps)
      | None \<Rightarrow> exec_from ts (Suc i) cs)"

definition exec :: "string \<Rightarrow> string \<Rightarrow> (nat \<times> string option list) option" where
  "exec p s = (case compile p of None \<Rightarrow> None | Some ts \<Rightarrow> exec_from ts 0 s)"

subsection \<open>Rewriting a message\<close>

definition digit_value :: "char \<Rightarrow> nat option" where
  "digit_value c =
     (if c \<in> set ''0123456789'' then Some (of_char c - of_char CHR ''0'') else None)"

text \<open>The text that stands for \<^verbatim>\<open>$n\<close>, when the match has a group \<open>n\<close>.\<close>

definition group_text :: "string option list \<Rightarrow> char \<Rightarrow> string option" where
  "group_text caps d =
     (case digit_value d of
        None \<Rightarrow> None
      | Some n \<Rightarrow>
          (if n < length caps
           then Some (case caps ! n of None \<Rightarrow> ''undefined'' | Some t \<Rightarrow> t)
           else None))"

fun expand :: "string \<Rightarrow> string option list \<Rightarrow> string" where
  "expand [] caps = []"
| "expand [c] caps = [c]"
| "expand (c # d # cs) caps =
     (case (if c = CHR ''$'' then group_text caps d else None) of
        Some t \<Rightarrow> t @ expand cs caps
      | None \<Rightarrow> c # expand (d # cs) caps)"

definition apply_rule :: "replace_rule \<Rightarrow> string \<Rightarrow> string option" where
  "apply_rule r msg =
     (case exec (matcher r) msg of
        None \<Rightarrow> None
      | Some (i, caps) \<Rightarrow> Some (expand (message r) caps))"

text \<open>The last line of a message: the text after its last line feed.\<close>

definition last_line :: "string \<Rightarrow> string" where
  "last_line msg = rev (takeWhile (\<lambda>c. c \<noteq> LF) (rev msg))"

section \<open>Properties of the manifest\<close>

lemma shell_words_packageExtension:
  "shell_words ''vsce package --out arkdark.vsix'' = [''vsce'', ''package'', ''--out'', ''arkdark.vsix'']"
  by (simp add: shell_words_def)

lemma shell_words_publishVsce:
  "shell_words ''vsce publish -i arkdark.vsix'' = [''vsce'', ''publish'', ''-i'', ''arkdark.vsix'']"
  by (simp add: shell_words_def)

lemma shell_words_publishOvsx:
  "shell_words ''ovsx publish -i arkdark.vsix'' = [''ovsx'', ''publish'', ''-i'', ''arkdark.vsix'']"
  by (simp add: shell_words_def)

lemma shell_words_publishExtension:
  "shell_words ''pnpm packageExtension && pnpm publishVsce && pnpm publishOvsx''
     = [''pnpm'', ''packageExtension'', ''&&'', ''pnpm'', ''publishVsce'', ''&&'', ''pnpm'', ''publishOvsx'']"
  by (simp add: shell_words_def)

lemma commands_packageExtension:
  "script_commands package_json ''packageExtension'' = [[''vsce'', ''package'', ''--out'', ''arkdark.vsix'']]"
  by (simp add: script_commands_def package_json_def shell_words_packageExtension)

lemma commands_publishVsce:
  "script_commands package_json ''publishVsce'' = [[''vsce'', ''publish'', ''-i'', ''arkdark.vsix'']]"
  by (simp add: script_commands_def package_json_def shell_words_publishVsce)

lemma commands_publishOvsx:
  "script_commands package_json ''publishOvsx'' = [[''ovsx'', ''publish'', ''-i'', ''arkdark.vsix'']]"
  by (simp add: script_commands_def package_json_def shell_words_publishOvsx)

lemma commands_publishExtension:
  "script_commands package_json ''publishExtension''
     = [[''pnpm'', ''packageExtension''], [''pnpm'', ''publishVsce''], [''pnpm'', ''publishOvsx'']]"
  by (simp add: script_commands_def package_json_def shell_words_publishExtension)

text \<open>
  Claim C1.  A scope is a target of the grammar injection exactly when it is one of the
  nine scopes \<^verbatim>\<open>source.ts\<close>, \<^verbatim>\<open>source.tsx\<close>, \<^verbatim>\<open>source.js\<close>, \<^verbatim>\<open>source.jsx\<close>,
  \<^verbatim>\<open>source.mdx\<close>, \<^verbatim>\<open>source.svelte\<close>, \<^verbatim>\<open>source.vue\<close>, \<^verbatim>\<open>source.astro\<close> and
  \<^verbatim>\<open>text.html.markdown\<close> (nine entries, none repeated), and the manifest contributes
  one grammar, of scope name \<^verbatim>\<open>source.arktype.injection.ts\<close> and path
  \<^verbatim>\<open>injected.tmLanguage.json\<close>.
\<close>

theorem grammar_injection_scopes:
  "(s \<in> set (inject_targets package_json) \<longleftrightarrow>
      s \<in> {''source.ts'', ''source.tsx'', ''source.js'', ''source.jsx'', ''source.mdx'',
           ''source.svelte'', ''source.vue'', ''source.astro'', ''text.html.markdown''})
   \<and> length (inject_targets package_json) = 9
   \<and> distinct (inject_targets package_json)
   \<and> map (\<lambda>g. (scopeName g, path g)) (grammars package_json)
       = [(''source.arktype.injection.ts'', ''injected.tmLanguage.json'')]"
  by (simp add: inject_targets_def package_json_def)

theorem grammar_injection_scopes_witness:
  "''source.svelte'' \<in> set (inject_targets package_json)
   \<and> ''source.css'' \<notin> set (inject_targets package_json)"
  using grammar_injection_scopes [of "''source.svelte''"]
    grammar_injection_scopes [of "''source.css''"]
  by simp

text \<open>
  Claim C8.  The packaging script writes \<^verbatim>\<open>arkdark.vsix\<close> (its \<^verbatim>\<open>--out\<close>), both
  publish scripts publish that file (their \<^verbatim>\<open>-i\<close>), and \<^verbatim>\<open>publishExtension\<close> is the
  list of \<^verbatim>\<open>packageExtension\<close>, \<^verbatim>\<open>publishVsce\<close>, \<^verbatim>\<open>publishOvsx\<close> in that order:
  whatever commands succeed, it starts with packaging, runs the Marketplace publish
  after packaging succeeded and the Open VSX publish after that one succeeded.
\<close>

theorem extension_scripts:
  "map (option_value ''--out'') (script_commands package_json ''packageExtension'') = [Some ''arkdark.vsix'']
   \<and> map (option_value ''-i'') (script_commands package_json ''publishVsce'') = [Some ''arkdark.vsix'']
   \<and> map (option_value ''-i'') (script_commands package_json ''publishOvsx'') = [Some ''arkdark.vsix'']
   \<and> script_commands package_json ''publishExtension''
       = [[''pnpm'', ''packageExtension''], [''pnpm'', ''publishVsce''], [''pnpm'', ''publishOvsx'']]
   \<and> run_script package_json ok ''publishExtension''
       = [''vsce'', ''package'', ''--out'', ''arkdark.vsix'']
         # (if ok [''vsce'', ''package'', ''--out'', ''arkdark.vsix'']
            then [''vsce'', ''publish'', ''-i'', ''arkdark.vsix'']
                 # (if ok [''vsce'', ''publish'', ''-i'', ''arkdark.vsix'']
                    then [[''ovsx'', ''publish'', ''-i'', ''arkdark.vsix'']]
                    else [])
            else [])"
proof -
  have scripts_defined:
    "map_of (scripts package_json) ''packageExtension'' \<noteq> None"
    "map_of (scripts package_json) ''publishVsce'' \<noteq> None"
    "map_of (scripts package_json) ''publishOvsx'' \<noteq> None"
    by (simp_all add: package_json_def)
  have "concat (map (resolve package_json) (script_commands package_json ''publishExtension''))
      = [[''vsce'', ''package'', ''--out'', ''arkdark.vsix''],
         [''vsce'', ''publish'', ''-i'', ''arkdark.vsix''],
         [''ovsx'', ''publish'', ''-i'', ''arkdark.vsix'']]"
    by (simp add: commands_publishExtension resolve_def scripts_defined
        commands_packageExtension commands_publishVsce commands_publishOvsx)
  then show ?thesis
    by (simp add: run_script_def commands_publishExtension
        commands_packageExtension commands_publishVsce commands_publishOvsx)
qed

theorem extension_scripts_witness:
  "run_script package_json (\<lambda>c. True) ''publishExtension''
     = [[''vsce'', ''package'', ''--out'', ''arkdark.vsix''],
        [''vsce'', ''publish'', ''-i'', ''arkdark.vsix''],
        [''ovsx'', ''publish'', ''-i'', ''arkdark.vsix'']]
   \<and> run_script package_json (\<lambda>c. False) ''publishExtension''
     = [[''vsce'', ''package'', ''--out'', ''arkdark.vsix'']]"
  using extension_scripts [of "\<lambda>c. True"] extension_scripts [of "\<lambda>c. False"] by simp

section \<open>Properties of the publish workflow\<close>

text \<open>
  Claim C2.  The workflow declares two events, \<^verbatim>\<open>push\<close> and \<^verbatim>\<open>workflow_dispatch\<close>,
  and an occurrence triggers it exactly when it is a push to the branch \<^verbatim>\<open>main\<close> or a
  manual dispatch: no push to another branch, no push of a tag and no other event does.
  The pattern \<^verbatim>\<open>main\<close> has no wildcard; the hypothesis says that the platform's
  matcher lets it match the name \<^verbatim>\<open>main\<close> only.
\<close>

theorem workflow_triggers:
  assumes literal: "\<And>n. glob ''main'' n = (n = ''main'')"
  shows "map event (on_events publish) = [''push'', ''workflow_dispatch'']
     \<and> (triggered glob publish e r \<longleftrightarrow>
          (e = ''push'' \<and> r = Branch ''main'') \<or> e = ''workflow_dispatch'')"
  by (cases r) (auto simp add: triggered_def publish_def ref_passes_def passes_def literal)

theorem workflow_triggers_witness:
  "triggered (=) publish ''push'' (Branch ''main'')
   \<and> triggered (=) publish ''workflow_dispatch'' (Branch ''feature'')
   \<and> \<not> triggered (=) publish ''push'' (Branch ''feature'')
   \<and> \<not> triggered (=) publish ''push'' (Tag ''main'')
   \<and> \<not> triggered (=) publish ''pull_request'' (Branch ''main'')"
proof -
  have literal: "\<And>n. (''main'' = n) = (n = ''main'')"
    by auto
  show ?thesis
    using workflow_triggers [of "(=)" "''push''" "Branch ''main''", OF literal]
      workflow_triggers [of "(=)" "''workflow_dispatch''" "Branch ''feature''", OF literal]
      workflow_triggers [of "(=)" "''push''" "Branch ''feature''", OF literal]
      workflow_triggers [of "(=)" "''push''" "Tag ''main''", OF literal]
      workflow_triggers [of "(=)" "''pull_request''" "Branch ''main''", OF literal]
    by simp
qed

lemma secret_names_orama:
  "secret_names ''${{ secrets.ORAMA_PRIVATE_API_KEY }}'' = [''ORAMA_PRIVATE_API_KEY'']"
  by (simp add: ident_char_def)

lemma secret_names_github:
  "secret_names ''${{ secrets.GITHUB_TOKEN }}'' = [''GITHUB_TOKEN'']"
  by (simp add: ident_char_def)

lemma secret_names_npm:
  "secret_names ''${{ secrets.NPM_TOKEN }}'' = [''NPM_TOKEN'']"
  by (simp add: ident_char_def)

lemma secret_names_literals:
  "secret_names ''phc_vKr7tmA1TyRlKm9zm5TWVmrTWAybJ2fCk66FtZG49Om'' = []"
  "secret_names ''https://us.i.posthog.com'' = []"
  "secret_names ''${{ steps.deployment.outputs.page_url }}'' = []"
  "secret_names ''actions/checkout@v4'' = []"
  "secret_names ''./.github/actions/setup'' = []"
  "secret_names ''actions/upload-pages-artifact@v3'' = []"
  "secret_names ''actions/deploy-pages@v4'' = []"
  "secret_names ''pnpm buildDocs'' = []"
  "secret_names ''pnpm ci:publish'' = []"
  "secret_names ''./ark/docs/out'' = []"
  "secret_names ''github-pages'' = []"
  "secret_names ''0'' = []"
  by simp_all

lemma env_bindings_publish:
  "env_bindings publish =
     [(''NEXT_PUBLIC_POSTHOG_KEY'', ''phc_vKr7tmA1TyRlKm9zm5TWVmrTWAybJ2fCk66FtZG49Om''),
      (''NEXT_PUBLIC_POSTHOG_HOST'', ''https://us.i.posthog.com''),
      (''ORAMA_PRIVATE_API_KEY'', ''${{ secrets.ORAMA_PRIVATE_API_KEY }}''),
      (''GITHUB_TOKEN'', ''${{ secrets.GITHUB_TOKEN }}''),
      (''NPM_TOKEN'', ''${{ secrets.NPM_TOKEN }}''),
      (''NODE_AUTH_TOKEN'', ''${{ secrets.NPM_TOKEN }}'')]"
  by (simp add: env_bindings_def publish_def update_gh_pages_def deploy_def release_def
      checkout_step_def setup_step_def)

lemma workflow_strings_publish:
  "workflow_strings publish =
     [''actions/checkout@v4'', ''0'', ''./.github/actions/setup'', ''pnpm buildDocs'',
      ''phc_vKr7tmA1TyRlKm9zm5TWVmrTWAybJ2fCk66FtZG49Om'', ''https://us.i.posthog.com'',
      ''${{ secrets.ORAMA_PRIVATE_API_KEY }}'',
      ''actions/upload-pages-artifact@v3'', ''./ark/docs/out'',
      ''github-pages'', ''${{ steps.deployment.outputs.page_url }}'', ''actions/deploy-pages@v4'',
      ''actions/checkout@v4'', ''0'', ''./.github/actions/setup'', ''pnpm ci:publish'',
      ''${{ secrets.GITHUB_TOKEN }}'', ''${{ secrets.NPM_TOKEN }}'', ''${{ secrets.NPM_TOKEN }}'']"
  by (simp add: workflow_strings_def job_strings_def step_strings_def publish_def
      update_gh_pages_def deploy_def release_def checkout_step_def setup_step_def)

lemma secrets_referenced_publish:
  "secrets_referenced publish
     = [''ORAMA_PRIVATE_API_KEY'', ''GITHUB_TOKEN'', ''NPM_TOKEN'', ''NPM_TOKEN'']"
  unfolding secrets_referenced_def workflow_strings_publish
  by (simp only: list.map concat.simps secret_names_orama secret_names_github secret_names_npm
      secret_names_literals append.simps)

text \<open>
  Claim C3 as the specification states it fails: the step \<^verbatim>\<open>Build docs\<close> sets the
  environment variable \<^verbatim>\<open>NEXT_PUBLIC_POSTHOG_KEY\<close>, which is none of the four listed
  names.
\<close>

theorem posthog_env_not_listed:
  "''NEXT_PUBLIC_POSTHOG_KEY'' \<in> set (env_vars publish)
   \<and> ''NEXT_PUBLIC_POSTHOG_KEY'' \<notin> listed_names"
  by (simp add: env_vars_def env_bindings_publish listed_names_def)

text \<open>
  Claim C3, amended.  The secrets the workflow references are \<^verbatim>\<open>ORAMA_PRIVATE_API_KEY\<close>,
  \<^verbatim>\<open>GITHUB_TOKEN\<close> and \<^verbatim>\<open>NPM_TOKEN\<close>; the environment variables its steps bind to a
  secret are exactly the four listed names; the environment variables its steps set are
  these four and the two variables \<^verbatim>\<open>NEXT_PUBLIC_POSTHOG_KEY\<close> and
  \<^verbatim>\<open>NEXT_PUBLIC_POSTHOG_HOST\<close>, which are bound to literal values; and
  \<^verbatim>\<open>NODE_AUTH_TOKEN\<close> is bound to the same value as \<^verbatim>\<open>NPM_TOKEN\<close>, the secret
  \<^verbatim>\<open>NPM_TOKEN\<close>.
\<close>

theorem workflow_secrets_and_env:
  "set (secrets_referenced publish) = {''ORAMA_PRIVATE_API_KEY'', ''GITHUB_TOKEN'', ''NPM_TOKEN''}
   \<and> set (secret_env_vars publish) = listed_names
   \<and> set (env_vars publish) = listed_names \<union> {''NEXT_PUBLIC_POSTHOG_KEY'', ''NEXT_PUBLIC_POSTHOG_HOST''}
   \<and> map fst (filter (\<lambda>(n, v). secret_names v = []) (env_bindings publish))
       = [''NEXT_PUBLIC_POSTHOG_KEY'', ''NEXT_PUBLIC_POSTHOG_HOST'']
   \<and> map_of (env_bindings publish) ''NODE_AUTH_TOKEN'' = map_of (env_bindings publish) ''NPM_TOKEN''
   \<and> map_of (env_bindings publish) ''NPM_TOKEN'' = Some ''${{ secrets.NPM_TOKEN }}''"
proof -
  have "secret_env_vars publish
      = [''ORAMA_PRIVATE_API_KEY'', ''GITHUB_TOKEN'', ''NPM_TOKEN'', ''NODE_AUTH_TOKEN'']"
    unfolding secret_env_vars_def env_bindings_publish
    by (simp add: secret_names_orama secret_names_github secret_names_npm secret_names_literals
        del: secret_names.simps)
  moreover have "env_vars publish
      = [''NEXT_PUBLIC_POSTHOG_KEY'', ''NEXT_PUBLIC_POSTHOG_HOST'',
         ''ORAMA_PRIVATE_API_KEY'', ''GITHUB_TOKEN'', ''NPM_TOKEN'', ''NODE_AUTH_TOKEN'']"
    by (simp add: env_vars_def env_bindings_publish)
  moreover have "map fst (filter (\<lambda>(n, v). secret_names v = []) (env_bindings publish))
      = [''NEXT_PUBLIC_POSTHOG_KEY'', ''NEXT_PUBLIC_POSTHOG_HOST'']"
    unfolding env_bindings_publish
    by (simp add: secret_names_orama secret_names_github secret_names_npm secret_names_literals
        del: secret_names.simps)
  ultimately show ?thesis
    by (auto simp add: secrets_referenced_publish listed_names_def env_bindings_publish)
qed

theorem workflow_secrets_and_env_witness:
  "''NODE_AUTH_TOKEN'' \<in> set (secret_env_vars publish)
   \<and> ''NEXT_PUBLIC_POSTHOG_HOST'' \<in> set (env_vars publish)
   \<and> ''NODE_AUTH_TOKEN'' \<notin> set (secrets_referenced publish)"
  using workflow_secrets_and_env by (simp add: listed_names_def)

text \<open>
  Claim C9.  The workflow sets \<^verbatim>\<open>permissions: write-all\<close>; its jobs are
  \<^verbatim>\<open>update-gh-pages\<close>, \<^verbatim>\<open>deploy\<close> and \<^verbatim>\<open>release\<close>; none of them has a permissions
  block of its own, so each of the three runs with \<^verbatim>\<open>write-all\<close>.
\<close>

theorem workflow_permissions:
  "permissions publish = Some ''write-all''
   \<and> map job_id (jobs publish) = [''update-gh-pages'', ''deploy'', ''release'']
   \<and> map job_permissions (jobs publish) = [None, None, None]
   \<and> map (effective_permissions publish) (jobs publish)
       = [Some ''write-all'', Some ''write-all'', Some ''write-all'']"
  by (simp add: publish_def update_gh_pages_def deploy_def release_def effective_permissions_def)

theorem workflow_permissions_witness:
  "effective_permissions publish release = Some ''write-all''
   \<and> effective_permissions publish deploy = Some ''write-all''
   \<and> effective_permissions publish update_gh_pages = Some ''write-all''"
  using workflow_permissions by (simp add: publish_def)

lemma run_events_append:
  "run_events wfl s (es1 @ es2) =
     (case run_events wfl s es1 of
        None \<Rightarrow> None
      | Some s' \<Rightarrow> run_events wfl s' es2)"
  by (induction es1 arbitrary: s) (auto split: option.splits)

lemma run_event_finished:
  assumes "run_event wfl (running, finished) e = Some (running', finished')"
    and "n \<in> set finished'"
  shows "n \<in> set finished \<or> e = Finish n"
  using assms by (cases e) (auto split: option.splits if_splits)

lemma run_events_finished:
  "run_events wfl (running, finished) es = Some (running', finished') \<Longrightarrow>
   n \<in> set finished' \<Longrightarrow> n \<in> set finished \<or> Finish n \<in> set es"
proof (induction es arbitrary: running finished)
  case Nil
  then show ?case by simp
next
  case (Cons e es)
  from Cons.prems(1) obtain r f where
    first: "run_event wfl (running, finished) e = Some (r, f)"
    and rest: "run_events wfl (r, f) es = Some (running', finished')"
    by (auto split: option.splits)
  from Cons.IH [OF rest Cons.prems(2)] have "n \<in> set f \<or> Finish n \<in> set es" .
  with run_event_finished [OF first] show ?case by auto
qed

lemma find_job_publish:
  "find_job publish ''update-gh-pages'' = Some update_gh_pages"
  "find_job publish ''deploy'' = Some deploy"
  "find_job publish ''release'' = Some release"
  by (simp_all add: find_job_def publish_def update_gh_pages_def deploy_def release_def)

text \<open>
  Claim C4.  \<^verbatim>\<open>deploy\<close> needs \<^verbatim>\<open>update-gh-pages\<close> and \<^verbatim>\<open>release\<close> needs no job.
  In every run of the workflow, \<^verbatim>\<open>update-gh-pages\<close> has finished before \<^verbatim>\<open>deploy\<close>
  starts; and in every state a run reaches, \<^verbatim>\<open>release\<close> can start if it has not
  started yet, whatever the other two jobs are doing.
\<close>

theorem job_ordering:
  "map (\<lambda>j. (job_id j, needs j)) (jobs publish)
     = [(''update-gh-pages'', []), (''deploy'', [''update-gh-pages'']), (''release'', [])]
   \<and> (valid_run publish (pre @ Start ''deploy'' # post) \<longrightarrow>
        Finish ''update-gh-pages'' \<in> set pre)
   \<and> (run_events publish ([], []) es = Some (running, finished)
        \<and> ''release'' \<notin> set running \<and> ''release'' \<notin> set finished \<longrightarrow>
        run_event publish (running, finished) (Start ''release'')
          = Some (''release'' # running, finished))"
proof (intro conjI impI)
  show "map (\<lambda>j. (job_id j, needs j)) (jobs publish)
     = [(''update-gh-pages'', []), (''deploy'', [''update-gh-pages'']), (''release'', [])]"
    by (simp add: publish_def update_gh_pages_def deploy_def release_def)
next
  assume valid: "valid_run publish (pre @ Start ''deploy'' # post)"
  then obtain r f where
    before: "run_events publish ([], []) pre = Some (r, f)"
    and start: "run_event publish (r, f) (Start ''deploy'') \<noteq> None"
    by (auto simp add: valid_run_def run_events_append split: option.splits)
  from start have "''update-gh-pages'' \<in> set f"
    by (auto simp add: find_job_publish deploy_def split: if_splits)
  with run_events_finished [OF before] show "Finish ''update-gh-pages'' \<in> set pre"
    by auto
next
  assume "run_events publish ([], []) es = Some (running, finished)
        \<and> ''release'' \<notin> set running \<and> ''release'' \<notin> set finished"
  then show "run_event publish (running, finished) (Start ''release'')
          = Some (''release'' # running, finished)"
    by (simp add: find_job_publish release_def)
qed

theorem job_ordering_witness:
  "valid_run publish
     ([Start ''update-gh-pages'', Start ''release'', Finish ''update-gh-pages'']
      @ Start ''deploy'' # [Finish ''release'', Finish ''deploy''])
   \<and> Finish ''update-gh-pages''
       \<in> set [Start ''update-gh-pages'', Start ''release'', Finish ''update-gh-pages'']
   \<and> run_events publish ([], []) [Start ''update-gh-pages'']
       = Some ([''update-gh-pages''], [])
   \<and> run_event publish ([''update-gh-pages''], []) (Start ''release'')
       = Some ([''release'', ''update-gh-pages''], [])
   \<and> run_events publish ([], [])
        [Start ''update-gh-pages'', Finish ''update-gh-pages'', Start ''deploy'']
       = Some ([''deploy''], [''update-gh-pages''])
   \<and> run_event publish ([''deploy''], [''update-gh-pages'']) (Start ''release'')
       = Some ([''release'', ''deploy''], [''update-gh-pages''])
   \<and> \<not> valid_run publish [Start ''deploy'']"
proof -
  have valid: "valid_run publish
     ([Start ''update-gh-pages'', Start ''release'', Finish ''update-gh-pages'']
      @ Start ''deploy'' # [Finish ''release'', Finish ''deploy''])"
    by (simp add: valid_run_def find_job_publish update_gh_pages_def deploy_def release_def)
  have r1: "run_events publish ([], []) [Start ''update-gh-pages'']
       = Some ([''update-gh-pages''], [])"
    by (simp add: find_job_publish update_gh_pages_def)
  have r2: "run_events publish ([], [])
        [Start ''update-gh-pages'', Finish ''update-gh-pages'', Start ''deploy'']
       = Some ([''deploy''], [''update-gh-pages''])"
    by (simp add: find_job_publish update_gh_pages_def deploy_def)
  show ?thesis
    using valid r1 r2
      job_ordering [of "[Start ''update-gh-pages'', Start ''release'', Finish ''update-gh-pages'']"
        "[Finish ''release'', Finish ''deploy'']" "[Start ''update-gh-pages'']"
        "[''update-gh-pages'']" "[]"]
      job_ordering [of "[]" "[]"
        "[Start ''update-gh-pages'', Finish ''update-gh-pages'', Start ''deploy'']"
        "[''deploy'']" "[''update-gh-pages'']"]
    by simp
qed

section \<open>Properties of the home layout\<close>

text \<open>
  Claim C10.  Let \<^verbatim>\<open>baseOptions.nav\<close> be absent or an object, as its type requires.
  For every props object, the element the default export returns is a
  \<^verbatim>\<open>HomeLayout\<close> element whose \<^verbatim>\<open>children\<close> prop is the given children; every prop
  other than \<^verbatim>\<open>children\<close> and \<^verbatim>\<open>nav\<close> is that of \<^verbatim>\<open>baseOptions\<close>; and \<^verbatim>\<open>nav\<close>
  is an object whose \<^verbatim>\<open>children\<close> is the element \<^verbatim>\<open><FloatYourBoat kind="header" />\<close>
  and whose every other property is that of \<^verbatim>\<open>baseOptions.nav\<close>.
\<close>

theorem layout_frame:
  assumes typed: "plain_object (get_prop baseOptions ''nav'')"
  shows "element_type (Layout baseOptions props) = Some ''HomeLayout''
    \<and> fmlookup (element_props (Layout baseOptions props)) ''children''
        = Some (get_prop props ''children'')
    \<and> (k \<noteq> ''children'' \<and> k \<noteq> ''nav'' \<longrightarrow>
          fmlookup (element_props (Layout baseOptions props)) k = fmlookup baseOptions k)
    \<and> (\<exists>nav. fmlookup (element_props (Layout baseOptions props)) ''nav'' = Some (Obj nav)
          \<and> fmlookup nav ''children''
              = Some (Element ''FloatYourBoat'' (fmupd ''kind'' (Str ''header'') fmempty))
          \<and> (k \<noteq> ''children'' \<longrightarrow>
                fmlookup nav k = fmlookup (own_props (get_prop baseOptions ''nav'')) k))"
  by (simp add: Layout_def jsx_def element_type_def element_props_def get_prop_def
      own_props_def FloatYourBoat_header_def Let_def)

theorem layout_frame_witness:
  "element_type
     (Layout (fmap_of_list [(''nav'', Obj (fmap_of_list [(''title'', Node 1), (''url'', Str ''/'')])),
                            (''links'', Node 2)])
        (fmap_of_list [(''children'', Node 7)])) = Some ''HomeLayout''
   \<and> fmlookup (element_props
       (Layout (fmap_of_list [(''nav'', Obj (fmap_of_list [(''title'', Node 1), (''url'', Str ''/'')])),
                              (''links'', Node 2)])
          (fmap_of_list [(''children'', Node 7)]))) ''children'' = Some (Node 7)
   \<and> fmlookup (element_props
       (Layout (fmap_of_list [(''nav'', Obj (fmap_of_list [(''title'', Node 1), (''url'', Str ''/'')])),
                              (''links'', Node 2)])
          (fmap_of_list [(''children'', Node 7)]))) ''links'' = Some (Node 2)
   \<and> (\<exists>nav. fmlookup (element_props
         (Layout (fmap_of_list [(''nav'', Obj (fmap_of_list [(''title'', Node 1), (''url'', Str ''/'')])),
                                (''links'', Node 2)])
            (fmap_of_list [(''children'', Node 7)]))) ''nav'' = Some (Obj nav)
        \<and> fmlookup nav ''children''
            = Some (Element ''FloatYourBoat'' (fmupd ''kind'' (Str ''header'') fmempty))
        \<and> fmlookup nav ''title'' = Some (Node 1))"
proof -
  let ?base = "fmap_of_list [(''nav'', Obj (fmap_of_list [(''title'', Node 1), (''url'', Str ''/'')])),
                            (''links'', Node 2)]"
  have typed: "plain_object (get_prop ?base ''nav'')"
    by (simp add: plain_object_def get_prop_def fmlookup_of_list)
  have nav: "fmlookup (own_props (get_prop ?base ''nav'')) ''title'' = Some (Node 1)"
    by (simp add: own_props_def get_prop_def fmlookup_of_list)
  show ?thesis
    using layout_frame [OF typed, of "fmap_of_list [(''children'', Node 7)]" "''links''"]
      layout_frame [OF typed, of "fmap_of_list [(''children'', Node 7)]" "''title''"] nav
    by (auto simp add: get_prop_def fmlookup_of_list)
qed

section \<open>Properties of the configuration documentation\<close>

text \<open>
  Claim C6.  Each of the keys \<^verbatim>\<open>clone\<close>, \<^verbatim>\<open>onUndeclaredKey\<close>, \<^verbatim>\<open>jitless\<close> and
  \<^verbatim>\<open>onFail\<close> has a section of its own in the documentation (the section of \<^verbatim>\<open>clone\<close>
  is headed \<^verbatim>\<open>Clone\<close>), and the code of that section calls \<^verbatim>\<open>configure({...})\<close>
  with that key; the section \<^verbatim>\<open>onUndeclaredKey\<close> lists three behaviours,
  \<^verbatim>\<open>ignore\<close>, marked as the default, \<^verbatim>\<open>delete\<close> and \<^verbatim>\<open>reject\<close>, and no other.
\<close>

theorem documented_configuration_keys:
  \<open>map (\<lambda>(t, ls). (t, configure_examples ls)) (sections configuration_doc)
     = [(''Clone'', [''clone'', ''clone'']),
        (''onUndeclaredKey'', [''onUndeclaredKey'']),
        (''exactOptionalPropertyTypes'', [''exactOptionalPropertyTypes'']),
        (''jitless'', [''jitless'']),
        (''onFail'', [''onFail''])]
   \<and> option_items (section_lines configuration_doc ''onUndeclaredKey'')
     = [(''ignore'', True), (''delete'', False), (''reject'', False)]\<close>
  by code_simp

section \<open>Properties of the ErrorLens rewrite rules\<close>

lemma last_line_Cons:
  "last_line (c # cs) =
     (if LF \<in> set cs then last_line cs else if c = LF then cs else c # cs)"
proof (cases "LF \<in> set cs")
  case True
  then have "takeWhile (\<lambda>c. c \<noteq> LF) (rev cs @ [c]) = takeWhile (\<lambda>c. c \<noteq> LF) (rev cs)"
    by (intro takeWhile_append1 [of LF]) simp_all
  with True show ?thesis
    by (simp add: last_line_def)
next
  case False
  then have "takeWhile (\<lambda>c. c \<noteq> LF) (rev cs @ [c]) = rev cs @ takeWhile (\<lambda>c. c \<noteq> LF) [c]"
    by (intro takeWhile_append2) auto
  with False show ?thesis
    by (simp add: last_line_def)
qed

lemma compile_fourth_matcher:
  "compile (matcher (errorLens_replace package_json ! 3))
     = Some [Star (NotOneOf []), One (Lit LF), Open, Star (NotOneOf [LF]), Close, End]"
  by (simp add: package_json_def compile_def cons_opt_def)

lemma line_tail_match:
  "LF \<notin> set t \<Longrightarrow>
   match_here [Star (NotOneOf [LF]), Close, End] t [(1, a1), (0, a0)] caps
     = Some (caps[1 := Some (rev a1 @ t), 0 := Some (rev a0 @ t)])"
proof (induction t arbitrary: a1 a0)
  case Nil
  show ?case by simp
next
  case (Cons c cs)
  then have "c \<noteq> LF" and "LF \<notin> set cs"
    by auto
  with Cons.IH [of "c # a1" "c # a0"] show ?case
    by (simp add: take_char_def)
qed

lemma fourth_matcher_here:
  "match_here [Star (NotOneOf []), One (Lit LF), Open, Star (NotOneOf [LF]), Close, End]
       s [(0, a0)] [None]
     = (if LF \<in> set s then Some [Some (rev a0 @ s), Some (last_line s)] else None)"
proof (induction s arbitrary: a0)
  case Nil
  show ?case by simp
next
  case (Cons c cs)
  show ?case
  proof (cases "LF \<in> set cs")
    case True
    with Cons.IH [of "c # a0"] show ?thesis
      by (simp add: take_char_def last_line_Cons)
  next
    case False
    note no_later = this
    with Cons.IH [of "c # a0"] have longer:
      "match_here [Star (NotOneOf []), One (Lit LF), Open, Star (NotOneOf [LF]), Close, End]
         cs (take_char c [(0, a0)]) [None] = None"
      by (simp add: take_char_def)
    show ?thesis
    proof (cases "c = LF")
      case True
      have "match_here [Star (NotOneOf [LF]), Close, End] cs [(1, []), (0, LF # a0)] [None, None]
          = Some ([None, None][1 := Some (rev [] @ cs), 0 := Some (rev (LF # a0) @ cs)])"
        using no_later by (rule line_tail_match)
      with True no_later longer show ?thesis
        by (simp add: take_char_def last_line_Cons)
    next
      case False
      with no_later longer show ?thesis
        by (simp add: last_line_Cons)
    qed
  qed
qed

lemma exec_from_here:
  "match_here ts s [(0, [])] [None] = Some caps \<Longrightarrow> exec_from ts i s = Some (i, caps)"
  by (cases s) simp_all

text \<open>
  Claim C5.  The manifest depends on the extension \<^verbatim>\<open>usernamehw.errorlens\<close> and gives
  \<^verbatim>\<open>errorLens.replace\<close> four rules, whose messages are \<^verbatim>\<open>$1\<close>, \<^verbatim>\<open>$1\<close>,
  \<^verbatim>\<open>$2\<close> and \<^verbatim>\<open>$1\<close> in this order.  For every message that holds a line feed,
  the fourth matcher matches, from the start of the message to its end, its first group
  is the last line of the message, and the rule rewrites the message to exactly that
  line.
\<close>

theorem last_line_rule:
  assumes newline: "LF \<in> set msg"
  shows "extensionDependencies package_json = [''usernamehw.errorlens'']
    \<and> length (errorLens_replace package_json) = 4
    \<and> map message (errorLens_replace package_json) = [''$1'', ''$1'', ''$2'', ''$1'']
    \<and> matcher (errorLens_replace package_json ! 3) = ''[^]*'' @ [LF] @ ''([^'' @ [LF] @ '']*)$''
    \<and> exec (matcher (errorLens_replace package_json ! 3)) msg
        = Some (0, [Some msg, Some (last_line msg)])
    \<and> apply_rule (errorLens_replace package_json ! 3) msg = Some (last_line msg)"
proof -
  have found: "exec (matcher (errorLens_replace package_json ! 3)) msg
      = Some (0, [Some msg, Some (last_line msg)])"
    unfolding exec_def compile_fourth_matcher
    using newline fourth_matcher_here [of msg "[]"] by (simp add: exec_from_here)
  have template: "message (errorLens_replace package_json ! 3) = ''$1''"
    by (simp add: package_json_def)
  have "apply_rule (errorLens_replace package_json ! 3) msg = Some (last_line msg)"
    by (simp add: apply_rule_def found template group_text_def digit_value_def)
  with found show ?thesis
    by (simp add: package_json_def)
qed

theorem last_line_rule_witness:
  "LF \<in> set (''Type A is not assignable to type B.'' @ [LF] @ ''  a must be a string'')
   \<and> apply_rule (errorLens_replace package_json ! 3)
        (''Type A is not assignable to type B.'' @ [LF] @ ''  a must be a string'')
       = Some ''  a must be a string''
   \<and> exec (matcher (errorLens_replace package_json ! 3)) (''x'' @ [LF])
       = Some (0, [Some (''x'' @ [LF]), Some ''''])"
proof -
  have n1: "LF \<in> set (''Type A is not assignable to type B.'' @ [LF] @ ''  a must be a string'')"
    by simp
  have n2: "LF \<in> set (''x'' @ [LF])"
    by simp
  from last_line_rule [OF n1] have rewritten:
    "apply_rule (errorLens_replace package_json ! 3)
        (''Type A is not assignable to type B.'' @ [LF] @ ''  a must be a string'')
       = Some (last_line (''Type A is not assignable to type B.'' @ [LF] @ ''  a must be a string''))"
    by blast
  from last_line_rule [OF n2] have found:
    "exec (matcher (errorLens_replace package_json ! 3)) (''x'' @ [LF])
       = Some (0, [Some (''x'' @ [LF]), Some (last_line (''x'' @ [LF]))])"
    by blast
  have "last_line (''Type A is not assignable to type B.'' @ [LF] @ ''  a must be a string'')
      = ''  a must be a string''"
    by (simp add: last_line_def)
  moreover have "last_line (''x'' @ [LF]) = []"
    by (simp add: last_line_def)
  ultimately show ?thesis
    using n1 rewritten found by simp
qed

end
